theory Spec2Isabelle
  imports Complex_Main "HOL-Library.AList"
begin

section \<open>Expense tracker: categoriser and statement parsers\<close>

text \<open>
  A shallow embedding of \<^verbatim>\<open>app/categoriser.py\<close> and \<^verbatim>\<open>app/parsers.py\<close>.
  Python exceptions are values of \<open>py_error\<close>; a function that can raise returns
  \<open>py_error + 'a\<close> with \<open>Inl\<close> for the exception.
\<close>

datatype py_error =
    KeyError | ValueError | TypeError | AttributeError | UnicodeDecodeError
  | IndexError | OSError | EmptyDataError | ExcelError

subsection \<open>Text helpers\<close>

text \<open>
  Text is a \<open>string\<close>; \<^verbatim>\<open>str.lower\<close> and \<^verbatim>\<open>str.upper\<close> are modelled on the
  ASCII letters (other characters are left alone), \<^verbatim>\<open>str.strip\<close> on the ASCII
  white space of Python (tab, LF, VT, FF, CR, FS, GS, RS, US, space).
\<close>

definition lower_char :: "char \<Rightarrow> char" where
  "lower_char c =
     (let n = (of_char c :: nat) in if 65 \<le> n \<and> n \<le> 90 then char_of (n + 32) else c)"

definition upper_char :: "char \<Rightarrow> char" where
  "upper_char c =
     (let n = (of_char c :: nat) in if 97 \<le> n \<and> n \<le> 122 then char_of (n - 32) else c)"

definition lower :: "string \<Rightarrow> string" where
  "lower s = map lower_char s"

definition upper :: "string \<Rightarrow> string" where
  "upper s = map upper_char s"

definition is_space :: "char \<Rightarrow> bool" where
  "is_space c = (let n = (of_char c :: nat) in (9 \<le> n \<and> n \<le> 13) \<or> (28 \<le> n \<and> n \<le> 32))"

definition strip :: "string \<Rightarrow> string" where
  "strip s = rev (dropWhile is_space (rev (dropWhile is_space s)))"

text \<open>\<^verbatim>\<open>k in s\<close> for strings: \<open>k\<close> occurs in \<open>s\<close> as a contiguous substring.\<close>

fun starts_with :: "string \<Rightarrow> string \<Rightarrow> bool" where
  "starts_with [] s = True"
| "starts_with (k # ks) [] = False"
| "starts_with (k # ks) (c # cs) = (k = c \<and> starts_with ks cs)"

fun contains :: "string \<Rightarrow> string \<Rightarrow> bool" where
  "contains k [] = (k = [])"
| "contains k (c # cs) = (starts_with k (c # cs) \<or> contains k cs)"

subsection \<open>Categoriser (\<^verbatim>\<open>categoriser.py\<close>)\<close>

text \<open>
  A value produced by \<^verbatim>\<open>json.loads\<close>. A JSON object is a Python dict: an
  association list with distinct keys in insertion order.
\<close>

datatype json =
    JNull | JBool bool | JNum rat | JStr string
  | JArr "json list" | JObj "(string \<times> json) list"

text \<open>
  The backing file at \<^verbatim>\<open>OverrideStore.path\<close>, by what \<^verbatim>\<open>path.exists()\<close>,
  \<^verbatim>\<open>path.read_text()\<close> and \<^verbatim>\<open>json.loads\<close> do on it:
  \<^item> \<open>Absent\<close>: \<^verbatim>\<open>exists()\<close> is false;
  \<^item> \<open>Unreadable\<close>: the file exists and reading it raises \<^verbatim>\<open>OSError\<close>
    (permissions, a directory, an I/O error);
  \<^item> \<open>Undecodable\<close>: the bytes are not text in the default encoding, so
    \<^verbatim>\<open>read_text()\<close> raises \<^verbatim>\<open>UnicodeDecodeError\<close>;
  \<^item> \<open>Malformed\<close>: the text is not JSON, \<^verbatim>\<open>json.loads\<close> raises
    \<^verbatim>\<open>JSONDecodeError\<close>;
  \<^item> \<open>Document v\<close>: the text is the JSON document \<open>v\<close>.

  \<^verbatim>\<open>json.dumps\<close> followed by \<^verbatim>\<open>json.loads\<close> is taken to give back the value
  written: \<^verbatim>\<open>_save\<close> leaves \<open>Document\<close> of the data on disk.
\<close>

datatype file_state = Absent | Unreadable | Undecodable | Malformed | Document json

text \<open>
  An \<^verbatim>\<open>OverrideStore\<close> with its backing file: \<open>data\<close> is \<^verbatim>\<open>self._data\<close>,
  \<open>disk\<close> what is at \<^verbatim>\<open>self.path\<close>, \<open>writable\<close> whether
  \<^verbatim>\<open>mkdir\<close> and \<^verbatim>\<open>write_text\<close> succeed there.
\<close>

record override_store =
  data :: json
  disk :: file_state
  writable :: bool

text \<open>
  \<^verbatim>\<open>_load\<close>: \<^verbatim>\<open>except (json.JSONDecodeError, OSError)\<close> gives the empty dict;
  \<^verbatim>\<open>UnicodeDecodeError\<close> is a \<^verbatim>\<open>ValueError\<close> and neither of the two, so it
  propagates.
\<close>

definition load :: "file_state \<Rightarrow> py_error + json" where
  "load f =
     (case f of
        Absent \<Rightarrow> Inr (JObj [])
      | Unreadable \<Rightarrow> Inr (JObj [])
      | Malformed \<Rightarrow> Inr (JObj [])
      | Undecodable \<Rightarrow> Inl UnicodeDecodeError
      | Document v \<Rightarrow> Inr v)"

text \<open>\<^verbatim>\<open>OverrideStore.__init__\<close> on a path whose file is \<open>f\<close>.\<close>

definition OverrideStore_init :: "file_state \<Rightarrow> bool \<Rightarrow> py_error + override_store" where
  "OverrideStore_init f w =
     (case load f of
        Inl e \<Rightarrow> Inl e
      | Inr v \<Rightarrow> Inr \<lparr>data = v, disk = f, writable = w\<rparr>)"

definition save :: "override_store \<Rightarrow> py_error + override_store" where
  "save s = (if writable s then Inr (s\<lparr>disk := Document (data s)\<rparr>) else Inl OSError)"

definition override_key :: "string \<Rightarrow> string" where
  "override_key description = strip (lower description)"

text \<open>
  \<^verbatim>\<open>self._data.get(key)\<close>: a dict answers with the value or \<^verbatim>\<open>None\<close>; any other
  JSON value has no \<^verbatim>\<open>get\<close>.
\<close>

definition store_get :: "override_store \<Rightarrow> string \<Rightarrow> py_error + json option" where
  "store_get s description =
     (case data s of
        JObj kvs \<Rightarrow> Inr (map_of kvs (override_key description))
      | _ \<Rightarrow> Inl AttributeError)"

text \<open>
  \<^verbatim>\<open>self._data[key] = category\<close>: a dict is updated in place (an existing key keeps
  its position, a new one goes last); any other JSON value raises \<^verbatim>\<open>TypeError\<close>.
\<close>

definition store_set :: "override_store \<Rightarrow> string \<Rightarrow> string \<Rightarrow> py_error + override_store" where
  "store_set s description category =
     (case data s of
        JObj kvs \<Rightarrow>
          save (s\<lparr>data := JObj (AList.update (override_key description) (JStr category) kvs)\<rparr>)
      | _ \<Rightarrow> Inl TypeError)"

record category_config =
  rules :: "(string \<times> string list) list"
  icons :: "(string \<times> string) list"
  uncategorised_label :: string
  uncategorised_icon :: string
  itemised_threshold :: rat

record categoriser =
  config :: category_config
  overrides :: override_store

text \<open>The two nested loops of \<^verbatim>\<open>categorise\<close> over \<^verbatim>\<open>config.rules.items()\<close>.\<close>

fun scan_rules :: "(string \<times> string list) list \<Rightarrow> string \<Rightarrow> string option" where
  "scan_rules [] desc_lower = None"
| "scan_rules ((category, keywords) # rest) desc_lower =
     (if list_ex (\<lambda>keyword. contains keyword desc_lower) keywords then Some category
      else scan_rules rest desc_lower)"

text \<open>
  \<^verbatim>\<open>categorise\<close> returns the stored override as it is (a JSON value; \<^verbatim>\<open>null\<close>
  is Python's \<^verbatim>\<open>None\<close> and counts as no override), else the first matching
  category, else the uncategorised label.
\<close>

definition categorise :: "categoriser \<Rightarrow> string \<Rightarrow> py_error + json" where
  "categorise c description =
     (case store_get (overrides c) description of
        Inl e \<Rightarrow> Inl e
      | Inr override \<Rightarrow>
          (if override \<noteq> None \<and> override \<noteq> Some JNull then Inr (the override)
           else (case scan_rules (rules (config c)) (lower description) of
                   Some category \<Rightarrow> Inr (JStr category)
                 | None \<Rightarrow> Inr (JStr (uncategorised_label (config c))))))"

definition recategorise :: "categoriser \<Rightarrow> string \<Rightarrow> string \<Rightarrow> py_error + categoriser" where
  "recategorise c description new_category =
     (case store_set (overrides c) description new_category of
        Inl e \<Rightarrow> Inl e
      | Inr s \<Rightarrow> Inr (c\<lparr>overrides := s\<rparr>))"

text \<open>
  A new process: the \<^verbatim>\<open>OverrideStore\<close> is constructed again from the file the old
  one left behind, with the same configuration.
\<close>

definition reload :: "categoriser \<Rightarrow> py_error + categoriser" where
  "reload c =
     (case OverrideStore_init (disk (overrides c)) (writable (overrides c)) of
        Inl e \<Rightarrow> Inl e
      | Inr s \<Rightarrow> Inr (c\<lparr>overrides := s\<rparr>))"

subsection \<open>Cells, numbers and frames (\<^verbatim>\<open>parsers.py\<close>)\<close>

text \<open>
  A float is an exact rational or an infinity (rounding is not modelled); NaN is a
  cell of its own. A cell of a DataFrame is missing (\<open>NaN\<close>), a number or a string.
\<close>

datatype fnum = Fin rat | PInf | NInf

datatype cell = NaN | Num fnum | Str string

definition fnum_gt0 :: "fnum \<Rightarrow> bool" where
  "fnum_gt0 x = (case x of Fin r \<Rightarrow> 0 < r | PInf \<Rightarrow> True | NInf \<Rightarrow> False)"

definition fnum_lt0 :: "fnum \<Rightarrow> bool" where
  "fnum_lt0 x = (case x of Fin r \<Rightarrow> r < 0 | PInf \<Rightarrow> False | NInf \<Rightarrow> True)"

definition fnum_abs :: "fnum \<Rightarrow> fnum" where
  "fnum_abs x = (case x of Fin r \<Rightarrow> Fin \<bar>r\<bar> | PInf \<Rightarrow> PInf | NInf \<Rightarrow> PInf)"

definition fnum_neg :: "fnum \<Rightarrow> fnum" where
  "fnum_neg x = (case x of Fin r \<Rightarrow> Fin (- r) | PInf \<Rightarrow> NInf | NInf \<Rightarrow> PInf)"

text \<open>
  Comparisons and \<^verbatim>\<open>abs\<close> on a float column: NaN compares false. The columns
  compared are outputs of \<^verbatim>\<open>pd.to_numeric\<close>, which hold no strings.
\<close>

definition cell_gt0 :: "cell \<Rightarrow> bool" where
  "cell_gt0 c = (case c of Num x \<Rightarrow> fnum_gt0 x | _ \<Rightarrow> False)"

definition cell_lt0 :: "cell \<Rightarrow> bool" where
  "cell_lt0 c = (case c of Num x \<Rightarrow> fnum_lt0 x | _ \<Rightarrow> False)"

definition cell_abs :: "cell \<Rightarrow> cell" where
  "cell_abs c = (case c of Num x \<Rightarrow> Num (fnum_abs x) | _ \<Rightarrow> c)"

subsubsection \<open>\<^verbatim>\<open>pd.to_numeric(..., errors="coerce")\<close>\<close>

definition is_digit :: "char \<Rightarrow> bool" where
  "is_digit c = (let n = (of_char c :: nat) in 48 \<le> n \<and> n \<le> 57)"

definition digit_val :: "char \<Rightarrow> nat" where
  "digit_val c = (of_char c :: nat) - 48"

definition digits_val :: "string \<Rightarrow> nat" where
  "digits_val ds = foldl (\<lambda>a c. 10 * a + digit_val c) 0 ds"

text \<open>
  An unsigned decimal literal: digits, an optional point and digits (at least one
  digit in all), an optional exponent \<^verbatim>\<open>e\<close> or \<^verbatim>\<open>E\<close> with a sign and digits.
\<close>

definition parse_exponent :: "string \<Rightarrow> int option" where
  "parse_exponent s =
     (let (negative, ds) =
            (case s of
               [] \<Rightarrow> (False, [])
             | c # cs \<Rightarrow>
                 if c = CHR ''-'' then (True, cs)
                 else if c = CHR ''+'' then (False, cs) else (False, s))
      in if ds \<noteq> [] \<and> list_all is_digit ds
         then Some (if negative then - int (digits_val ds) else int (digits_val ds))
         else None)"

definition parse_unsigned :: "string \<Rightarrow> rat option" where
  "parse_unsigned s =
     (let ip = takeWhile is_digit s;
          r1 = dropWhile is_digit s;
          (fp, r2) =
            (case r1 of
               [] \<Rightarrow> ([], [])
             | c # cs \<Rightarrow>
                 if c = CHR ''.'' then (takeWhile is_digit cs, dropWhile is_digit cs)
                 else ([], r1))
      in if ip = [] \<and> fp = [] then None
         else
           (let mant = (of_nat (digits_val (ip @ fp)) :: rat) / 10 ^ length fp
            in case r2 of
                 [] \<Rightarrow> Some mant
               | c # cs \<Rightarrow>
                   if c = CHR ''e'' \<or> c = CHR ''E''
                   then (case parse_exponent cs of
                           None \<Rightarrow> None
                         | Some k \<Rightarrow>
                             Some (if k < 0 then mant / 10 ^ nat (- k) else mant * 10 ^ nat k))
                   else None))"

text \<open>
  A string as a float: white space around it is skipped, a sign may lead,
  \<^verbatim>\<open>inf\<close> and \<^verbatim>\<open>infinity\<close> (any case) are the infinities. Everything else,
  \<^verbatim>\<open>nan\<close> and the empty string included, is NaN under \<^verbatim>\<open>errors="coerce"\<close>.
\<close>

definition to_numeric_str :: "string \<Rightarrow> cell" where
  "to_numeric_str s =
     (let t = strip s;
          (negative, u) =
            (case t of
               [] \<Rightarrow> (False, [])
             | c # cs \<Rightarrow>
                 if c = CHR ''-'' then (True, cs)
                 else if c = CHR ''+'' then (False, cs) else (False, t))
      in if lower u = ''inf'' \<or> lower u = ''infinity''
         then Num (if negative then NInf else PInf)
         else (case parse_unsigned u of
                 None \<Rightarrow> NaN
               | Some r \<Rightarrow> Num (Fin (if negative then - r else r))))"

definition to_numeric :: "cell \<Rightarrow> cell" where
  "to_numeric c = (case c of Str s \<Rightarrow> to_numeric_str s | _ \<Rightarrow> c)"

text \<open>
  \<^verbatim>\<open>pd.to_numeric(col.astype(str).str.replace(a, "")..., errors="coerce")\<close> with the
  characters of \<open>removed\<close> taken out. \<^verbatim>\<open>astype(str)\<close> turns a float into its
  \<^verbatim>\<open>repr\<close>, which has no comma and no currency sign and converts back to the same
  float, and NaN into \<^verbatim>\<open>nan\<close>, which converts to NaN: numeric cells pass unchanged.
\<close>

definition numeric_without :: "string \<Rightarrow> cell \<Rightarrow> cell" where
  "numeric_without removed c =
     (case c of
        Str s \<Rightarrow> to_numeric_str (filter (\<lambda>ch. ch \<notin> set removed) s)
      | _ \<Rightarrow> c)"

subsubsection \<open>Frames\<close>

text \<open>
  A raw DataFrame, column by column: the column labels with their cells, every column
  of the same length.
\<close>

type_synonym raw_frame = "(string \<times> cell list) list"

definition frame_empty :: "raw_frame \<Rightarrow> bool" where
  "frame_empty df = (case df of [] \<Rightarrow> True | (label, xs) # rest \<Rightarrow> xs = [])"

definition nrows :: "raw_frame \<Rightarrow> nat" where
  "nrows df = (case df of [] \<Rightarrow> 0 | (label, xs) # rest \<Rightarrow> length xs)"

text \<open>
  \<^verbatim>\<open>df_raw[name]\<close> as a Series: \<^verbatim>\<open>KeyError\<close> when no column has the label. With
  the label on several columns pandas answers with a DataFrame, and each use below
  then raises (\<^verbatim>\<open>ValueError\<close>, \<^verbatim>\<open>TypeError\<close> or \<^verbatim>\<open>AttributeError\<close>); the model
  raises \<^verbatim>\<open>ValueError\<close>.
\<close>

definition getcol :: "raw_frame \<Rightarrow> string \<Rightarrow> py_error + cell list" where
  "getcol df name =
     (case filter (\<lambda>p. fst p = name) df of
        [] \<Rightarrow> Inl KeyError
      | [p] \<Rightarrow> Inr (snd p)
      | p # q # ps \<Rightarrow> Inl ValueError)"

text \<open>\<^verbatim>\<open>df_raw.get(name, default)\<close>.\<close>

definition frame_get :: "raw_frame \<Rightarrow> string \<Rightarrow> (py_error + cell list) \<Rightarrow> py_error + cell list" where
  "frame_get df name fallback =
     (case filter (\<lambda>p. fst p = name) df of
        [] \<Rightarrow> fallback
      | [p] \<Rightarrow> Inr (snd p)
      | p # q # ps \<Rightarrow> Inl ValueError)"

text \<open>\<^verbatim>\<open>cols = [c.lower().strip() for c in df_raw.columns]\<close> and \<^verbatim>\<open>df_raw.columns = cols\<close>.\<close>

definition clean_columns :: "raw_frame \<Rightarrow> string list" where
  "clean_columns df = map (\<lambda>c. strip (lower c)) (map fst df)"

definition set_columns :: "raw_frame \<Rightarrow> string list \<Rightarrow> raw_frame" where
  "set_columns df cols = zip cols (map snd df)"

text \<open>\<^verbatim>\<open>df[mask]\<close>: the rows where the mask holds.\<close>

definition select_mask :: "bool list \<Rightarrow> 'a list \<Rightarrow> 'a list" where
  "select_mask keep xs = map snd (filter fst (zip keep xs))"

definition frame_select :: "bool list \<Rightarrow> raw_frame \<Rightarrow> raw_frame" where
  "frame_select keep df = map (\<lambda>(label, xs). (label, select_mask keep xs)) df"

fun ebind :: "py_error + 'a \<Rightarrow> ('a \<Rightarrow> py_error + 'b) \<Rightarrow> py_error + 'b" where
  "ebind (Inl e) f = Inl e"
| "ebind (Inr x) f = f x"

fun collect :: "(py_error + 'a) list \<Rightarrow> py_error + 'a list" where
  "collect [] = Inr []"
| "collect (x # xs) =
     (case x of
        Inl e \<Rightarrow> Inl e
      | Inr v \<Rightarrow> (case collect xs of Inl e \<Rightarrow> Inl e | Inr vs \<Rightarrow> Inr (v # vs)))"

subsubsection \<open>Dates: \<^verbatim>\<open>pd.to_datetime(series, format=fmt)\<close>\<close>

record caldate =
  year :: nat
  month :: nat
  day :: nat

definition is_leap :: "nat \<Rightarrow> bool" where
  "is_leap y = (y mod 4 = 0 \<and> (y mod 100 \<noteq> 0 \<or> y mod 400 = 0))"

definition days_in_month :: "nat \<Rightarrow> nat \<Rightarrow> nat" where
  "days_in_month y m =
     (if m = 2 then (if is_leap y then 29 else 28)
      else if m = 4 \<or> m = 6 \<or> m = 9 \<or> m = 11 then 30 else 31)"

definition valid_date :: "nat \<Rightarrow> nat \<Rightarrow> nat \<Rightarrow> bool" where
  "valid_date y m d =
     (1 \<le> y \<and> y \<le> 9999 \<and> 1 \<le> m \<and> m \<le> 12 \<and> 1 \<le> d \<and> d \<le> days_in_month y m)"

text \<open>
  A format is a list of directives. Each directive is the regular expression that
  \<^verbatim>\<open>strptime\<close> compiles it to, given as the list of its matches at the head of the
  input in the order the alternation tries them:
  \<^verbatim>\<open>%d\<close> is \<^verbatim>\<open>3[0-1]|[1-2]\d|0[1-9]|[1-9]| [1-9]\<close>,
  \<^verbatim>\<open>%m\<close> is \<^verbatim>\<open>1[0-2]|0[1-9]|[1-9]\<close>, \<^verbatim>\<open>%Y\<close> is four digits, \<^verbatim>\<open>%y\<close> two
  (00 to 68 in 2000, 69 to 99 in 1900), \<^verbatim>\<open>%b\<close> an English month abbreviation in any
  case, a blank in the format one or more white-space characters.
\<close>

datatype fmt_tok = TokD | TokM | TokY | Toky | TokB | TokWS | TokLit char

definition in_range :: "char \<Rightarrow> nat \<Rightarrow> nat \<Rightarrow> bool" where
  "in_range c lo hi = (is_digit c \<and> lo \<le> digit_val c \<and> digit_val c \<le> hi)"

definition alts_d :: "string \<Rightarrow> (nat \<times> string) list" where
  "alts_d s =
     (case s of
        c # d # r \<Rightarrow>
          (if c = CHR ''3'' \<and> in_range d 0 1 then [(30 + digit_val d, r)] else []) @
          (if in_range c 1 2 \<and> is_digit d then [(10 * digit_val c + digit_val d, r)] else []) @
          (if c = CHR ''0'' \<and> in_range d 1 9 then [(digit_val d, r)] else [])
      | _ \<Rightarrow> []) @
     (case s of c # r \<Rightarrow> (if in_range c 1 9 then [(digit_val c, r)] else []) | [] \<Rightarrow> []) @
     (case s of
        c # d # r \<Rightarrow> (if c = CHR '' '' \<and> in_range d 1 9 then [(digit_val d, r)] else [])
      | _ \<Rightarrow> [])"

definition alts_m :: "string \<Rightarrow> (nat \<times> string) list" where
  "alts_m s =
     (case s of
        c # d # r \<Rightarrow>
          (if c = CHR ''1'' \<and> in_range d 0 2 then [(10 + digit_val d, r)] else []) @
          (if c = CHR ''0'' \<and> in_range d 1 9 then [(digit_val d, r)] else [])
      | _ \<Rightarrow> []) @
     (case s of c # r \<Rightarrow> (if in_range c 1 9 then [(digit_val c, r)] else []) | [] \<Rightarrow> [])"

definition alts_Y :: "string \<Rightarrow> (nat \<times> string) list" where
  "alts_Y s =
     (if 4 \<le> length s \<and> list_all is_digit (take 4 s)
      then [(digits_val (take 4 s), drop 4 s)] else [])"

definition alts_y :: "string \<Rightarrow> (nat \<times> string) list" where
  "alts_y s =
     (if 2 \<le> length s \<and> list_all is_digit (take 2 s)
      then [(let n = digits_val (take 2 s) in if n \<le> 68 then n + 2000 else n + 1900,
             drop 2 s)]
      else [])"

definition month_abbrs :: "string list" where
  "month_abbrs =
     [''jan'', ''feb'', ''mar'', ''apr'', ''may'', ''jun'',
      ''jul'', ''aug'', ''sep'', ''oct'', ''nov'', ''dec'']"

fun index_of :: "'a \<Rightarrow> 'a list \<Rightarrow> nat option" where
  "index_of x [] = None"
| "index_of x (y # ys) =
     (if x = y then Some 0 else (case index_of x ys of None \<Rightarrow> None | Some i \<Rightarrow> Some (Suc i)))"

definition alts_b :: "string \<Rightarrow> (nat \<times> string) list" where
  "alts_b s =
     (if 3 \<le> length s
      then (case index_of (lower (take 3 s)) month_abbrs of
              None \<Rightarrow> []
            | Some i \<Rightarrow> [(Suc i, drop 3 s)])
      else [])"

definition alts_ws :: "string \<Rightarrow> string list" where
  "alts_ws s = map (\<lambda>k. drop k s) (rev [1 ..< Suc (length (takeWhile is_space s))])"

type_synonym ymd = "nat \<times> nat \<times> nat"

fun tok_alts :: "fmt_tok \<Rightarrow> ymd \<Rightarrow> string \<Rightarrow> (ymd \<times> string) list" where
  "tok_alts TokD (y, m, d) s = map (\<lambda>(v, r). ((y, m, v), r)) (alts_d s)"
| "tok_alts TokM (y, m, d) s = map (\<lambda>(v, r). ((y, v, d), r)) (alts_m s)"
| "tok_alts TokY (y, m, d) s = map (\<lambda>(v, r). ((v, m, d), r)) (alts_Y s)"
| "tok_alts Toky (y, m, d) s = map (\<lambda>(v, r). ((v, m, d), r)) (alts_y s)"
| "tok_alts TokB (y, m, d) s = map (\<lambda>(v, r). ((y, v, d), r)) (alts_b s)"
| "tok_alts TokWS (y, m, d) s = map (\<lambda>r. ((y, m, d), r)) (alts_ws s)"
| "tok_alts (TokLit c) (y, m, d) s =
     (case s of [] \<Rightarrow> [] | x # r \<Rightarrow> (if x = c then [((y, m, d), r)] else []))"

fun match_fmt :: "fmt_tok list \<Rightarrow> ymd \<Rightarrow> string \<Rightarrow> (ymd \<times> string) list" where
  "match_fmt [] env s = [(env, s)]"
| "match_fmt (t # ts) env s =
     concat (map (\<lambda>(env', r). match_fmt ts env' r) (tok_alts t env s))"

text \<open>
  The first match of the compiled expression at the start of the string; the whole
  string must be consumed (\<^verbatim>\<open>exact=True\<close>) and the fields must form a calendar
  date, else \<^verbatim>\<open>ValueError\<close> (here \<open>None\<close>).
\<close>

definition strptime :: "fmt_tok list \<Rightarrow> string \<Rightarrow> caldate option" where
  "strptime fmt s =
     (case match_fmt fmt (1900, 1, 1) s of
        [] \<Rightarrow> None
      | ((y, m, d), r) # others \<Rightarrow>
          (if r \<noteq> [] then None
           else if valid_date y m d then Some \<lparr>year = y, month = m, day = d\<rparr>
           else None))"

text \<open>
  What the program takes from its libraries without fixing it: reading a spreadsheet,
  decoding bytes as UTF-8, the per-element date inference of
  \<^verbatim>\<open>pd.to_datetime(..., dayfirst=b, format="mixed")\<close> (which raises on an element
  it cannot read), and the string form of a number.
\<close>

record library =
  read_excel :: "string \<Rightarrow> py_error + raw_frame"
  decode_utf8 :: "string \<Rightarrow> string option"
  to_datetime_mixed :: "bool \<Rightarrow> cell \<Rightarrow> py_error + caldate option"
  num_str :: "fnum \<Rightarrow> string"

definition nat_strings :: "string list" where
  "nat_strings = [''NaT'', ''nat'', ''NAT'', ''nan'', ''NaN'', ''NAN'']"

text \<open>
  One element under a fixed format: missing values, the empty string and the NaT
  strings give NaT (\<open>None\<close>) without consulting the format; a number is read through
  its string form.
\<close>

definition strptime_elem :: "fmt_tok list \<Rightarrow> string \<Rightarrow> py_error + caldate option" where
  "strptime_elem fmt s =
     (if s = [] \<or> s \<in> set nat_strings then Inr None
      else (case strptime fmt s of None \<Rightarrow> Inl ValueError | Some d \<Rightarrow> Inr (Some d)))"

definition strptime_cell :: "library \<Rightarrow> fmt_tok list \<Rightarrow> cell \<Rightarrow> py_error + caldate option" where
  "strptime_cell lib fmt c =
     (case c of
        NaN \<Rightarrow> Inr None
      | Str s \<Rightarrow> strptime_elem fmt s
      | Num x \<Rightarrow> strptime_elem fmt (num_str lib x))"

definition fmt_dmY_slash :: "fmt_tok list" where
  "fmt_dmY_slash = [TokD, TokLit CHR ''/'', TokM, TokLit CHR ''/'', TokY]"

definition fmt_dmY_dash :: "fmt_tok list" where
  "fmt_dmY_dash = [TokD, TokLit CHR ''-'', TokM, TokLit CHR ''-'', TokY]"

definition fmt_Ymd :: "fmt_tok list" where
  "fmt_Ymd = [TokY, TokLit CHR ''-'', TokM, TokLit CHR ''-'', TokD]"

definition fmt_dbY :: "fmt_tok list" where
  "fmt_dbY = [TokD, TokWS, TokB, TokWS, TokY]"

definition fmt_dmy_slash :: "fmt_tok list" where
  "fmt_dmy_slash = [TokD, TokLit CHR ''/'', TokM, TokLit CHR ''/'', Toky]"

definition fmt_mdY_slash :: "fmt_tok list" where
  "fmt_mdY_slash = [TokM, TokLit CHR ''/'', TokD, TokLit CHR ''/'', TokY]"

definition FORMATS :: "fmt_tok list list" where
  "FORMATS = [fmt_dmY_slash, fmt_dmY_dash, fmt_Ymd, fmt_dbY, fmt_dmy_slash, fmt_mdY_slash]"

text \<open>
  \<^verbatim>\<open>pd.to_datetime(series, format=fmt)\<close> and
  \<^verbatim>\<open>pd.to_datetime(series, dayfirst=b, format="mixed")\<close> on a whole series: the first
  element that fails raises.
\<close>

definition to_datetime_format :: "library \<Rightarrow> fmt_tok list \<Rightarrow> cell list \<Rightarrow> py_error + caldate option list" where
  "to_datetime_format lib fmt series = collect (map (strptime_cell lib fmt) series)"

definition to_datetime_infer :: "library \<Rightarrow> bool \<Rightarrow> cell list \<Rightarrow> py_error + caldate option list" where
  "to_datetime_infer lib dayfirst series = collect (map (to_datetime_mixed lib dayfirst) series)"

text \<open>
  \<^verbatim>\<open>_to_date\<close>: the loop over the formats, each call on the whole series, with
  \<^verbatim>\<open>except (ValueError, TypeError): continue\<close>; after the loop the inferring call
  with \<^verbatim>\<open>dayfirst=True\<close>, whose exception is not caught.
\<close>

fun try_formats :: "library \<Rightarrow> fmt_tok list list \<Rightarrow> cell list \<Rightarrow> py_error + caldate option list" where
  "try_formats lib [] series = to_datetime_infer lib True series"
| "try_formats lib (fmt # fmts) series =
     (case to_datetime_format lib fmt series of
        Inr ds \<Rightarrow> Inr ds
      | Inl e \<Rightarrow>
          (if e = ValueError \<or> e = TypeError then try_formats lib fmts series else Inl e))"

definition to_date :: "library \<Rightarrow> cell list \<Rightarrow> py_error + caldate option list" where
  "to_date lib series = try_formats lib FORMATS series"

subsubsection \<open>\<^verbatim>\<open>_normalise\<close>\<close>

text \<open>
  A row of the frame a recognizer builds (\<open>date\<close> is a datetime column, \<open>None\<close> is
  NaT), and a row of the normalised frame, which adds \<open>source_file\<close>.
\<close>

record prow =
  date :: "caldate option"
  description :: cell
  amount :: cell

record txn = prow +
  source_file :: string

definition make_rows :: "caldate option list \<Rightarrow> cell list \<Rightarrow> cell list \<Rightarrow> prow list" where
  "make_rows dates descriptions amounts =
     map (\<lambda>(d, s, a). \<lparr>date = d, description = s, amount = a\<rparr>)
       (zip dates (zip descriptions amounts))"

definition add_source :: "string \<Rightarrow> prow \<Rightarrow> txn" where
  "add_source source r =
     \<lparr>date = date r, description = description r, amount = amount r, source_file = source\<rparr>"

text \<open>
  \<^verbatim>\<open>_normalise\<close>, statement by statement: the three columns with \<open>source_file\<close>,
  \<^verbatim>\<open>dropna(subset=["date", "amount"])\<close>, \<^verbatim>\<open>to_numeric(...).abs()\<close>, the rows with
  \<^verbatim>\<open>amount > 0\<close>. \<^verbatim>\<open>reset_index\<close> renumbers the rows, which a list does by itself.
\<close>

definition normalise :: "prow list \<Rightarrow> string \<Rightarrow> txn list" where
  "normalise df source =
     (let df1 = map (add_source source) df;
          df2 = filter (\<lambda>r. date r \<noteq> None \<and> amount r \<noteq> NaN) df1;
          df3 = map (\<lambda>r. r\<lparr>amount := cell_abs (to_numeric (amount r))\<rparr>) df2
      in filter (\<lambda>r. cell_gt0 (amount r)) df3)"

subsubsection \<open>The recognizers\<close>

text \<open>
  A recognizer answers with \<open>None\<close> (not this bank) or a normalised frame, and hands
  back \<^verbatim>\<open>df_raw\<close>, whose column labels it has overwritten when it claimed the file.
\<close>

type_synonym recognizer =
  "library \<Rightarrow> raw_frame \<Rightarrow> string \<Rightarrow> py_error + (txn list option \<times> raw_frame)"

definition astype_str :: "library \<Rightarrow> cell \<Rightarrow> string" where
  "astype_str lib c = (case c of NaN \<Rightarrow> ''nan'' | Str s \<Rightarrow> s | Num x \<Rightarrow> num_str lib x)"

text \<open>\<^verbatim>\<open>df = df[df["amount"] < 0].copy(); df["amount"] = df["amount"].abs()\<close>\<close>

definition keep_negative :: "prow list \<Rightarrow> prow list" where
  "keep_negative df =
     map (\<lambda>r. r\<lparr>amount := cell_abs (amount r)\<rparr>) (filter (\<lambda>r. cell_lt0 (amount r)) df)"

text \<open>\<^verbatim>\<open>df = df[df["amount"] > 0]\<close>\<close>

definition keep_positive :: "prow list \<Rightarrow> prow list" where
  "keep_positive df = filter (\<lambda>r. cell_gt0 (amount r)) df"

definition parse_monzo :: recognizer where
  "parse_monzo lib df_raw0 source =
     (let cols = clean_columns df_raw0 in
      if ''transaction id'' \<notin> set cols then Inr (None, df_raw0)
      else
        (let df_raw = set_columns df_raw0 cols in
         ebind (getcol df_raw ''date'') (\<lambda>date_col.
         ebind (to_date lib date_col) (\<lambda>dates.
         ebind (frame_get df_raw ''name''
                  (frame_get df_raw ''description''
                     (Inr (replicate (length dates) (Str []))))) (\<lambda>descriptions.
         ebind (getcol df_raw ''amount'') (\<lambda>amount_col.
           (let raw_amount = map to_numeric amount_col;
                df = keep_negative (make_rows dates descriptions raw_amount)
            in Inr (Some (normalise df source), df_raw))))))))"

definition parse_starling :: recognizer where
  "parse_starling lib df_raw0 source =
     (let cols = clean_columns df_raw0 in
      if ''counter party'' \<notin> set cols \<and> ''counterparty'' \<notin> set cols then Inr (None, df_raw0)
      else
        (let df_raw = set_columns df_raw0 cols;
             cp_col = (if ''counter party'' \<in> set cols then ''counter party''
                       else ''counterparty'');
             amt_gbp = filter (\<lambda>c. contains ''amount'' c \<and> contains ''gbp'' c) cols;
             amt_any = (if amt_gbp = [] then filter (\<lambda>c. contains ''amount'' c) cols
                        else amt_gbp);
             amt_col = (case amt_any of [] \<Rightarrow> ''amount'' | c # cs \<Rightarrow> c)
         in
         ebind (getcol df_raw ''date'') (\<lambda>date_col.
         ebind (to_date lib date_col) (\<lambda>dates.
         ebind (frame_get df_raw ''reference''
                  (Inr (replicate (nrows df_raw) (Str [])))) (\<lambda>ref.
         ebind (getcol df_raw cp_col) (\<lambda>cp.
         ebind (getcol df_raw amt_col) (\<lambda>amount_col.
           (let descriptions =
                  map (\<lambda>(a, b). Str (astype_str lib a @ '' '' @ astype_str lib b)) (zip cp ref);
                raw_amount = map (numeric_without '','') amount_col;
                df = keep_negative (make_rows dates descriptions raw_amount)
            in Inr (Some (normalise df source), df_raw)))))))))"

definition parse_revolut :: recognizer where
  "parse_revolut lib df_raw0 source =
     (let cols = clean_columns df_raw0 in
      if ''completed date'' \<notin> set cols \<and> ''started date'' \<notin> set cols then Inr (None, df_raw0)
      else
        (let df_raw = set_columns df_raw0 cols;
             date_name = (if ''completed date'' \<in> set cols then ''completed date''
                          else ''started date'')
         in
         ebind (getcol df_raw date_name) (\<lambda>date_col.
         ebind (to_date lib date_col) (\<lambda>dates.
         ebind (getcol df_raw ''description'') (\<lambda>descriptions.
         ebind (getcol df_raw ''amount'') (\<lambda>amount_col.
           (let raw_amount = map (numeric_without '','') amount_col;
                df = keep_negative (make_rows dates descriptions raw_amount)
            in Inr (Some (normalise df source), df_raw))))))))"

definition parse_lloyds :: recognizer where
  "parse_lloyds lib df_raw0 source =
     (let cols = clean_columns df_raw0 in
      if ''transaction description'' \<notin> set cols \<or> ''debit amount'' \<notin> set cols
      then Inr (None, df_raw0)
      else
        (let df_raw = set_columns df_raw0 cols in
         ebind (getcol df_raw ''transaction date'') (\<lambda>date_col.
         ebind (to_date lib date_col) (\<lambda>dates.
         ebind (getcol df_raw ''transaction description'') (\<lambda>descriptions.
         ebind (getcol df_raw ''debit amount'') (\<lambda>amount_col.
           (let amounts = map (numeric_without '','') amount_col;
                df = keep_positive (make_rows dates descriptions amounts)
            in Inr (Some (normalise df source), df_raw))))))))"

text \<open>
  In \<^verbatim>\<open>_parse_hsbc\<close> the labels \<^verbatim>\<open>debit\<close> and \<^verbatim>\<open>credit\<close> are both in \<open>cols\<close>
  where \<^verbatim>\<open>cols[1]\<close> is read, so the index is in range.
\<close>

definition parse_hsbc :: recognizer where
  "parse_hsbc lib df_raw0 source =
     (let cols = clean_columns df_raw0 in
      if ''debit'' \<notin> set cols \<or> ''credit'' \<notin> set cols then Inr (None, df_raw0)
      else
        (let df_raw = set_columns df_raw0 cols;
             desc_col = (if ''description'' \<in> set cols then ''description'' else cols ! 1)
         in
         ebind (getcol df_raw ''date'') (\<lambda>date_col.
         ebind (to_date lib date_col) (\<lambda>dates.
         ebind (getcol df_raw desc_col) (\<lambda>descriptions.
         ebind (getcol df_raw ''debit'') (\<lambda>amount_col.
           (let amounts = map (numeric_without '','') amount_col;
                df = keep_positive (make_rows dates descriptions amounts)
            in Inr (Some (normalise df source), df_raw))))))))"

text \<open>
  \<^verbatim>\<open>.str.upper()\<close> needs a column of strings: a column without any string is a
  numeric column and the accessor raises \<^verbatim>\<open>AttributeError\<close>. On a column of strings
  an element that is not a string gives NaN, which is not \<^verbatim>\<open>"DBIT"\<close>.
\<close>

definition is_dbit :: "cell list \<Rightarrow> py_error + bool list" where
  "is_dbit col =
     (if list_ex (\<lambda>c. case c of Str s \<Rightarrow> True | _ \<Rightarrow> False) col
      then Inr (map (\<lambda>c. case c of Str s \<Rightarrow> upper s = ''DBIT'' | _ \<Rightarrow> False) col)
      else Inl AttributeError)"

definition parse_amex_detailed :: recognizer where
  "parse_amex_detailed lib df_raw0 source =
     (let cols = clean_columns df_raw0 in
      if ''billing amount'' \<notin> set cols \<or> ''merchant'' \<notin> set cols
         \<or> ''debit or credit'' \<notin> set cols
      then Inr (None, df_raw0)
      else
        (let df_raw = set_columns df_raw0 cols;
             date_name = (if ''transaction date'' \<in> set cols then ''transaction date''
                          else ''posting date'')
         in
         ebind (getcol df_raw ''debit or credit'') (\<lambda>flag.
         ebind (is_dbit flag) (\<lambda>keep.
           (let df_debits = frame_select keep df_raw in
            if frame_empty df_debits then Inr (None, df_raw)
            else
              ebind (getcol df_debits date_name) (\<lambda>date_col.
              ebind (to_date lib date_col) (\<lambda>dates.
              ebind (getcol df_debits ''merchant'') (\<lambda>merchant.
              ebind (getcol df_debits ''billing amount'') (\<lambda>amount_col.
                (let descriptions = map (\<lambda>c. Str (strip (astype_str lib c))) merchant;
                     amounts = map (numeric_without '','') amount_col;
                     df = keep_positive (make_rows dates descriptions amounts)
                 in Inr (Some (normalise df source), df_raw)))))))))))"

definition parse_amex :: recognizer where
  "parse_amex lib df_raw0 source =
     (let cols = clean_columns df_raw0 in
      if ''amount'' \<in> set cols \<and> ''description'' \<in> set cols \<and> length cols \<le> 6
      then
        (let df_raw = set_columns df_raw0 cols in
         ebind (getcol df_raw ''date'') (\<lambda>date_col.
         ebind (to_date lib date_col) (\<lambda>dates.
         ebind (getcol df_raw ''description'') (\<lambda>descriptions.
         ebind (getcol df_raw ''amount'') (\<lambda>amount_col.
           (let amounts = map (numeric_without '','') amount_col;
                df = keep_positive (make_rows dates descriptions amounts)
            in Inr (Some (normalise df source), df_raw)))))))
      else Inr (None, df_raw0))"

text \<open>
  The column searches of \<^verbatim>\<open>_parse_generic\<close>: the first candidate that is a label,
  else the first label that looks right, else a label by position.
\<close>

definition pick_column :: "string list \<Rightarrow> string list \<Rightarrow> (string \<Rightarrow> bool) \<Rightarrow> string option" where
  "pick_column cols candidates looks_right =
     (case find (\<lambda>candidate. candidate \<in> set cols) candidates of
        Some c \<Rightarrow> Some c
      | None \<Rightarrow> find looks_right cols)"

text \<open>The pound sign, U+00A3.\<close>

definition pound :: char where
  "pound = CHR 0xA3"

definition parse_generic :: "library \<Rightarrow> raw_frame \<Rightarrow> string \<Rightarrow> py_error + txn list" where
  "parse_generic lib df_raw0 source =
     (let cols = clean_columns df_raw0;
          df_raw = set_columns df_raw0 cols
      in
      ebind (case pick_column cols
                    [''date'', ''transaction date'', ''trans date'', ''posted date'', ''value date'']
                    (\<lambda>c. contains ''date'' c) of
               Some c \<Rightarrow> Inr c
             | None \<Rightarrow> (case cols of [] \<Rightarrow> Inl IndexError | c # cs \<Rightarrow> Inr c)) (\<lambda>date_name.
      ebind (case pick_column cols
                    [''description'', ''transaction description'', ''narrative'', ''details'',
                     ''memo'', ''name'', ''payee'', ''merchant'']
                    (\<lambda>c. contains ''desc'' c \<or> contains ''narr'' c \<or> contains ''detail'' c
                          \<or> contains ''memo'' c) of
               Some c \<Rightarrow> Inr c
             | None \<Rightarrow>
                 (case cols of
                    [] \<Rightarrow> Inl IndexError
                  | c # cs \<Rightarrow> Inr (if 1 < length cols then cols ! 1 else c))) (\<lambda>desc_col.
      ebind (case pick_column cols
                    [''amount'', ''debit'', ''debit amount'', ''value'', ''transaction amount'']
                    (\<lambda>c. contains ''amount'' c \<or> contains ''debit'' c \<or> contains ''value'' c) of
               Some c \<Rightarrow> Inr c
             | None \<Rightarrow> (if cols = [] then Inl IndexError else Inr (last cols))) (\<lambda>amt_col.
      ebind (getcol df_raw date_name) (\<lambda>date_col.
      ebind (to_date lib date_col) (\<lambda>dates.
      ebind (getcol df_raw desc_col) (\<lambda>desc.
      ebind (getcol df_raw amt_col) (\<lambda>amount_col.
        (let descriptions = map (\<lambda>c. Str (astype_str lib c)) desc;
             raw_amount = map (numeric_without [CHR '','', pound]) amount_col;
             df = make_rows dates descriptions (map cell_abs raw_amount)
         in Inr (normalise df source))))))))))"

subsubsection \<open>\<^verbatim>\<open>parse_statement\<close> and \<^verbatim>\<open>parse_multiple\<close>\<close>

definition PARSERS :: "recognizer list" where
  "PARSERS =
     [parse_amex_detailed, parse_monzo, parse_starling, parse_revolut,
      parse_lloyds, parse_hsbc, parse_amex]"

text \<open>
  The loop \<^verbatim>\<open>for parser_fn in PARSERS\<close> with the fallback after it. An exception of a
  recognizer leaves the loop and the function.
\<close>

fun run_parsers :: "library \<Rightarrow> recognizer list \<Rightarrow> raw_frame \<Rightarrow> string \<Rightarrow> py_error + txn list" where
  "run_parsers lib [] df_raw filename = parse_generic lib df_raw filename"
| "run_parsers lib (parser_fn # rest) df_raw filename =
     (case parser_fn lib df_raw filename of
        Inl e \<Rightarrow> Inl e
      | Inr (result, df_raw') \<Rightarrow>
          (case result of
             None \<Rightarrow> run_parsers lib rest df_raw' filename
           | Some r \<Rightarrow> (if r \<noteq> [] then Inr r else run_parsers lib rest df_raw' filename)))"

text \<open>\<^verbatim>\<open>parse_statement\<close> from the point where \<^verbatim>\<open>df_raw\<close> has been read.\<close>

definition parse_frame :: "library \<Rightarrow> raw_frame \<Rightarrow> string \<Rightarrow> py_error + txn list" where
  "parse_frame lib df_raw filename =
     (if frame_empty df_raw then Inr [] else run_parsers lib PARSERS df_raw filename)"

subsubsection \<open>Reading a file\<close>

definition ends_with :: "string \<Rightarrow> string \<Rightarrow> bool" where
  "ends_with s suffix = starts_with (rev suffix) (rev s)"

text \<open>
  The decoding loop: UTF-8 first; \<^verbatim>\<open>latin-1\<close> gives every byte the character of
  the same code and cannot fail, so \<^verbatim>\<open>cp1252\<close> and the replacing decoder are never
  reached.
\<close>

definition decode :: "library \<Rightarrow> string \<Rightarrow> string" where
  "decode lib content = (case decode_utf8 lib content of Some text \<Rightarrow> text | None \<Rightarrow> content)"

definition LF :: char where
  "LF = CHR 0x0A"

definition CR :: char where
  "CR = CHR 0x0D"

text \<open>
  \<^verbatim>\<open>str.splitlines\<close> on the ASCII line boundaries (LF, VT, FF, CR, FS, GS, RS, and CR LF
  as one); no empty last line after a final boundary.
\<close>

definition is_line_break :: "char \<Rightarrow> bool" where
  "is_line_break c = (let n = (of_char c :: nat) in (10 \<le> n \<and> n \<le> 13) \<or> (28 \<le> n \<and> n \<le> 30))"

fun splitlines_from :: "string \<Rightarrow> string \<Rightarrow> string list" where
  "splitlines_from acc [] = (if acc = [] then [] else [rev acc])"
| "splitlines_from acc [c] = (if is_line_break c then [rev acc] else [rev (c # acc)])"
| "splitlines_from acc (c # d # cs) =
     (if c = CR \<and> d = LF then rev acc # splitlines_from [] cs
      else if is_line_break c then rev acc # splitlines_from [] (d # cs)
      else splitlines_from (c # acc) (d # cs))"

definition splitlines :: "string \<Rightarrow> string list" where
  "splitlines s = splitlines_from [] s"

text \<open>\<^verbatim>\<open>line.split(sep)\<close> for a separator of one character.\<close>

fun split_from :: "char \<Rightarrow> string \<Rightarrow> string \<Rightarrow> string list" where
  "split_from sep acc [] = [rev acc]"
| "split_from sep acc (c # cs) =
     (if c = sep then rev acc # split_from sep [] cs else split_from sep (c # acc) cs)"

definition split_on :: "char \<Rightarrow> string \<Rightarrow> string list" where
  "split_on sep s = split_from sep [] s"

fun join_lines :: "string list \<Rightarrow> string" where
  "join_lines [] = []"
| "join_lines [l] = l"
| "join_lines (l # m # ls) = l @ [LF] @ join_lines (m # ls)"

fun first_index :: "('a \<Rightarrow> bool) \<Rightarrow> 'a list \<Rightarrow> nat option" where
  "first_index P [] = None"
| "first_index P (x # xs) =
     (if P x then Some 0 else (case first_index P xs of None \<Rightarrow> None | Some i \<Rightarrow> Some (Suc i)))"

text \<open>
  The first line with a comma and at least three comma-separated fields, else line 0.
\<close>

definition find_start :: "string list \<Rightarrow> nat" where
  "find_start lines =
     (case first_index
             (\<lambda>line. CHR '','' \<in> set line \<and> 3 \<le> length (split_on CHR '','' line)) lines of
        None \<Rightarrow> 0
      | Some i \<Rightarrow> i)"

text \<open>
  \<^verbatim>\<open>pd.read_csv(..., on_bad_lines="skip")\<close> on text without quoted fields: records
  end at LF, blank lines are skipped, the first record is the header, a record with
  more fields than the header is skipped and a shorter one is filled with missing
  values. No record at all is \<^verbatim>\<open>EmptyDataError\<close>. A field that is one of the default
  NA strings is missing; a column whose other fields are all numbers is numeric, any
  other column holds its fields as strings.
\<close>

definition na_values :: "string list" where
  "na_values =
     [[], ''#N/A'', ''#N/A N/A'', ''#NA'', ''-1.#IND'', ''-1.#QNAN'', ''-NaN'', ''-nan'',
      ''1.#IND'', ''1.#QNAN'', ''<NA>'', ''N/A'', ''NA'', ''NULL'', ''NaN'', ''None'',
      ''n/a'', ''nan'', ''null'']"

definition infer_column :: "string list \<Rightarrow> cell list" where
  "infer_column texts =
     (if list_all (\<lambda>f. f \<in> set na_values \<or> to_numeric_str f \<noteq> NaN) texts
      then map (\<lambda>f. if f \<in> set na_values then NaN else to_numeric_str f) texts
      else map (\<lambda>f. if f \<in> set na_values then NaN else Str f) texts)"

definition read_csv :: "string \<Rightarrow> py_error + raw_frame" where
  "read_csv text =
     (case filter (\<lambda>l. l \<noteq> []) (split_on LF text) of
        [] \<Rightarrow> Inl EmptyDataError
      | header # body \<Rightarrow>
          (let names = split_on CHR '','' header;
               n = length names;
               records = filter (\<lambda>r. length r \<le> n) (map (split_on CHR '','') body);
               padded = map (\<lambda>r. r @ replicate (n - length r) []) records
           in Inr (map (\<lambda>i. (names ! i, infer_column (map (\<lambda>r. r ! i) padded))) [0 ..< n])))"

definition parse_statement :: "library \<Rightarrow> string \<Rightarrow> string \<Rightarrow> py_error + txn list" where
  "parse_statement lib content filename =
     (let filename_lower = lower filename in
      ebind
        (if ends_with filename_lower ''.xlsx'' \<or> ends_with filename_lower ''.xls''
         then read_excel lib content
         else
           (let text = decode lib content;
                lines = splitlines (strip text);
                start = find_start lines;
                cleaned = join_lines (drop start lines)
            in read_csv cleaned))
        (\<lambda>df_raw. parse_frame lib df_raw filename))"

text \<open>
  \<^verbatim>\<open>parse_multiple\<close>: the loop that appends each file's frame, without a handler
  around the call, then the concatenation.
\<close>

fun parse_each :: "library \<Rightarrow> (string \<times> string) list \<Rightarrow> py_error + txn list list" where
  "parse_each lib [] = Inr []"
| "parse_each lib ((fobj, fname) # files) =
     (case parse_statement lib fobj fname of
        Inl e \<Rightarrow> Inl e
      | Inr frame \<Rightarrow>
          (case parse_each lib files of Inl e \<Rightarrow> Inl e | Inr frames \<Rightarrow> Inr (frame # frames)))"

definition parse_multiple :: "library \<Rightarrow> (string \<times> string) list \<Rightarrow> py_error + txn list" where
  "parse_multiple lib files =
     (case parse_each lib files of
        Inl e \<Rightarrow> Inl e
      | Inr frames \<Rightarrow> (if frames = [] then Inr [] else Inr (concat frames)))"

text \<open>
  A library for evaluating examples: no spreadsheet decodes, UTF-8 decoding is the
  identity (the examples are ASCII), date inference reads nothing, and numbers are
  not printed.
\<close>

definition plain_library :: library where
  "plain_library =
     \<lparr>read_excel = (\<lambda>content. Inl ExcelError),
      decode_utf8 = (\<lambda>content. Some content),
      to_datetime_mixed = (\<lambda>dayfirst c. Inl ValueError),
      num_str = (\<lambda>x. ''0'')\<rparr>"

subsection \<open>Example values\<close>

definition example_categoriser :: categoriser where
  "example_categoriser =
     \<lparr>config = \<lparr>rules = [(''Transport'', [''uber'', ''tfl''])], icons = [],
                 uncategorised_label = ''Other / Uncategorised'', uncategorised_icon = ''?'',
                 itemised_threshold = 30\<rparr>,
      overrides = \<lparr>data = JObj [], disk = Absent, writable = True\<rparr>\<rparr>"

definition jan28 :: caldate where
  "jan28 = \<lparr>year = 2026, month = 1, day = 28\<rparr>"

text \<open>The date string that reads as 1 February day-first and as 2 January month-first.\<close>

definition ambiguous :: string where
  "ambiguous = ''01/02/2026''"

section \<open>Properties of the categoriser\<close>

lemma lower_char_idem: "lower_char (lower_char c) = lower_char c"
proof (cases "65 \<le> (of_char c :: nat) \<and> (of_char c :: nat) \<le> 90")
  case True
  then have "(of_char (char_of (of_char c + 32 :: nat)) :: nat) = of_char c + 32"
    by simp
  with True show ?thesis by (simp add: lower_char_def Let_def)
next
  case False
  then show ?thesis by (auto simp add: lower_char_def Let_def)
qed

lemma lower_idem: "lower (lower s) = lower s"
  by (simp add: lower_def lower_char_idem)

lemma override_key_lower: "override_key (lower d) = override_key d"
  by (simp add: override_key_def lower_idem)

lemma store_get_lower: "store_get s (lower d) = store_get s d"
  unfolding store_get_def override_key_lower ..

lemma map_of_update_same: "map_of (AList.update k v kvs) k = Some v"
  by (simp add: update_conv')

lemma store_set_dict:
  assumes "data s = JObj kvs" and "writable s"
  shows "store_set s d x =
           Inr (s\<lparr>data := JObj (AList.update (override_key d) (JStr x) kvs),
                  disk := Document (JObj (AList.update (override_key d) (JStr x) kvs))\<rparr>)"
  using assms by (simp add: store_set_def save_def)

lemma categorise_override:
  assumes "store_get (overrides c) d = Inr (Some (JStr x))"
  shows "categorise c d = Inr (JStr x)"
  using assms by (simp add: categorise_def)

text \<open>
  C2. On a store that holds a mapping and whose file can be written,
  \<^verbatim>\<open>recategorise(desc, X)\<close> returns, and afterwards \<^verbatim>\<open>categorise(desc)\<close> is \<open>X\<close>
  whatever the keyword rules of the configuration say, in the same process and in
  one that constructs the store again from the file.
\<close>

theorem override_precedence:
  assumes "data (overrides c) = JObj kvs" and "writable (overrides c)"
  shows "\<exists>c'. recategorise c d x = Inr c' \<and> categorise c' d = Inr (JStr x) \<and>
           (\<exists>c''. reload c' = Inr c'' \<and> categorise c'' d = Inr (JStr x))"
proof -
  let ?kvs = "AList.update (override_key d) (JStr x) kvs"
  let ?s = "(overrides c)\<lparr>data := JObj ?kvs, disk := Document (JObj ?kvs)\<rparr>"
  let ?s2 = "\<lparr>data = JObj ?kvs, disk = Document (JObj ?kvs), writable = True\<rparr>"
  have r: "recategorise c d x = Inr (c\<lparr>overrides := ?s\<rparr>)"
    by (simp add: recategorise_def store_set_dict [OF assms])
  have g: "store_get ?s d = Inr (Some (JStr x))"
    by (simp add: store_get_def map_of_update_same)
  have 1: "categorise (c\<lparr>overrides := ?s\<rparr>) d = Inr (JStr x)"
    by (rule categorise_override) (simp add: g)
  have l: "reload (c\<lparr>overrides := ?s\<rparr>) = Inr (c\<lparr>overrides := ?s2\<rparr>)"
    using assms(2) by (simp add: reload_def OverrideStore_init_def load_def)
  have g2: "store_get ?s2 d = Inr (Some (JStr x))"
    by (simp add: store_get_def map_of_update_same)
  have 2: "categorise (c\<lparr>overrides := ?s2\<rparr>) d = Inr (JStr x)"
    by (rule categorise_override) (simp add: g2)
  from r 1 l 2 show ?thesis by simp
qed

theorem override_precedence_witness:
  "categorise example_categoriser ''UBER TRIP LONDON'' = Inr (JStr ''Transport'') \<and>
   (\<exists>c'. recategorise example_categoriser ''UBER TRIP LONDON'' ''Business'' = Inr c' \<and>
      categorise c' ''UBER TRIP LONDON'' = Inr (JStr ''Business'') \<and>
      (\<exists>c''. reload c' = Inr c'' \<and> categorise c'' ''UBER TRIP LONDON'' = Inr (JStr ''Business'')))"
proof -
  have d: "data (overrides example_categoriser) = JObj []"
    and w: "writable (overrides example_categoriser)"
    by (simp_all add: example_categoriser_def)
  have k: "categorise example_categoriser ''UBER TRIP LONDON'' = Inr (JStr ''Transport'')"
    by code_simp
  from k override_precedence [OF d w, of "''UBER TRIP LONDON''" "''Business''"]
  show ?thesis by simp
qed

text \<open>
  C8. A backing file whose bytes are not text in the default encoding is a state in
  which the content cannot be read: \<^verbatim>\<open>read_text()\<close> raises
  \<^verbatim>\<open>UnicodeDecodeError\<close>, the handler of \<^verbatim>\<open>_load\<close> names only
  \<^verbatim>\<open>JSONDecodeError\<close> and \<^verbatim>\<open>OSError\<close>, and constructing the store raises. The
  missing, the unreadable and the malformed file do give the empty mapping.
\<close>

theorem load_undecodable_raises:
  "OverrideStore_init Undecodable w = Inl UnicodeDecodeError \<and>
   OverrideStore_init Absent w = Inr \<lparr>data = JObj [], disk = Absent, writable = w\<rparr> \<and>
   OverrideStore_init Unreadable w = Inr \<lparr>data = JObj [], disk = Unreadable, writable = w\<rparr> \<and>
   OverrideStore_init Malformed w = Inr \<lparr>data = JObj [], disk = Malformed, writable = w\<rparr>"
  by (simp add: OverrideStore_init_def load_def)

text \<open>
  C10. For every categoriser state and every description, \<^verbatim>\<open>categorise\<close> gives the
  same answer (the same category or the same exception) on the description and on
  its lowercased form.
\<close>

theorem categorise_lower:
  "categorise c (lower d) = categorise c d"
  unfolding categorise_def store_get_lower lower_idem ..

section \<open>Properties of normalisation\<close>

lemma ebind_Inr: "ebind m f = Inr y \<longleftrightarrow> (\<exists>x. m = Inr x \<and> f x = Inr y)"
  by (cases m) auto

lemma normalise_amount:
  assumes "r \<in> set (normalise df source)"
  shows "\<exists>x. amount r = Num x \<and> fnum_gt0 x"
  using assms
  by (auto simp add: normalise_def Let_def cell_gt0_def split: cell.splits)

lemma normalise_Nil: "normalise [] source = []"
  by (simp add: normalise_def)

lemma monzo_normalised:
  "parse_monzo lib df source = Inr (Some rows, df') \<Longrightarrow> \<exists>d. rows = normalise d source"
  by (auto simp add: parse_monzo_def Let_def ebind_Inr split: if_splits)

lemma starling_normalised:
  "parse_starling lib df source = Inr (Some rows, df') \<Longrightarrow> \<exists>d. rows = normalise d source"
  by (auto simp add: parse_starling_def Let_def ebind_Inr split: if_splits)

lemma revolut_normalised:
  "parse_revolut lib df source = Inr (Some rows, df') \<Longrightarrow> \<exists>d. rows = normalise d source"
  by (auto simp add: parse_revolut_def Let_def ebind_Inr split: if_splits)

lemma lloyds_normalised:
  "parse_lloyds lib df source = Inr (Some rows, df') \<Longrightarrow> \<exists>d. rows = normalise d source"
  by (auto simp add: parse_lloyds_def Let_def ebind_Inr split: if_splits)

lemma hsbc_normalised:
  "parse_hsbc lib df source = Inr (Some rows, df') \<Longrightarrow> \<exists>d. rows = normalise d source"
  by (auto simp add: parse_hsbc_def Let_def ebind_Inr split: if_splits)

lemma amex_detailed_normalised:
  "parse_amex_detailed lib df source = Inr (Some rows, df') \<Longrightarrow> \<exists>d. rows = normalise d source"
  by (auto simp add: parse_amex_detailed_def Let_def ebind_Inr split: if_splits)

lemma amex_normalised:
  "parse_amex lib df source = Inr (Some rows, df') \<Longrightarrow> \<exists>d. rows = normalise d source"
  by (auto simp add: parse_amex_def Let_def ebind_Inr split: if_splits)

lemma generic_normalised:
  "parse_generic lib df source = Inr rows \<Longrightarrow> \<exists>d. rows = normalise d source"
  by (auto simp add: parse_generic_def Let_def ebind_Inr split: if_splits)

lemma PARSERS_normalised:
  "p \<in> set PARSERS \<Longrightarrow> p lib df source = Inr (Some rows, df') \<Longrightarrow> \<exists>d. rows = normalise d source"
  unfolding PARSERS_def
  using monzo_normalised starling_normalised revolut_normalised lloyds_normalised
    hsbc_normalised amex_detailed_normalised amex_normalised
  by auto

lemma run_parsers_normalised:
  assumes "\<And>p df rows df'. p \<in> set ps \<Longrightarrow> p lib df source = Inr (Some rows, df')
             \<Longrightarrow> \<exists>d. rows = normalise d source"
  shows "run_parsers lib ps df source = Inr rows \<Longrightarrow> \<exists>d. rows = normalise d source"
  using assms
proof (induction ps arbitrary: df)
  case Nil
  then show ?case by (simp add: generic_normalised)
next
  case (Cons p ps)
  show ?case
  proof (cases "p lib df source")
    case (Inl e)
    with Cons.prems(1) show ?thesis by simp
  next
    case (Inr res)
    obtain r df' where res: "res = (r, df')" by (cases res)
    show ?thesis
    proof (cases r)
      case None
      with Inr res Cons.prems(1) have "run_parsers lib ps df' source = Inr rows" by simp
      then show ?thesis using Cons.IH Cons.prems(2) by (meson list.set_intros(2))
    next
      case (Some found)
      show ?thesis
      proof (cases "found = []")
        case True
        with Some Inr res Cons.prems(1) have "run_parsers lib ps df' source = Inr rows" by simp
        then show ?thesis using Cons.IH Cons.prems(2) by (meson list.set_intros(2))
      next
        case False
        with Some Inr res Cons.prems(1) have "rows = found" by simp
        with Some Inr res Cons.prems(2) [of p df found df'] show ?thesis by simp
      qed
    qed
  qed
qed

lemma parse_frame_normalised:
  "parse_frame lib df source = Inr rows \<Longrightarrow> \<exists>d. rows = normalise d source"
  unfolding parse_frame_def
  using run_parsers_normalised [of PARSERS lib source df rows] PARSERS_normalised normalise_Nil
  by (auto split: if_splits) metis

text \<open>
  C1. Every row that \<^verbatim>\<open>_normalise\<close> returns has a numeric amount greater than 0, for
  every input frame: after \<^verbatim>\<open>abs()\<close> the filter \<^verbatim>\<open>amount > 0\<close> lets no missing, zero
  or negative amount through. Every frame that \<^verbatim>\<open>parse_statement\<close> returns from a
  raw frame, whichever recognizer produced it, is an output of \<^verbatim>\<open>_normalise\<close> and has
  the same property.
\<close>

theorem amounts_positive:
  "(\<forall>r \<in> set (normalise df source). \<exists>x. amount r = Num x \<and> fnum_gt0 x) \<and>
   (\<forall>rows. parse_frame lib df_raw filename = Inr rows \<longrightarrow>
      (\<forall>r \<in> set rows. \<exists>x. amount r = Num x \<and> fnum_gt0 x))"
proof (intro conjI ballI allI impI)
  fix r assume "r \<in> set (normalise df source)"
  then show "\<exists>x. amount r = Num x \<and> fnum_gt0 x" by (rule normalise_amount)
next
  fix rows r
  assume "parse_frame lib df_raw filename = Inr rows" and r: "r \<in> set rows"
  then obtain d where "rows = normalise d filename"
    using parse_frame_normalised by blast
  with r show "\<exists>x. amount r = Num x \<and> fnum_gt0 x" by (simp add: normalise_amount)
qed

theorem amounts_positive_witness:
  "normalise
     [\<lparr>date = Some jan28, description = Str ''REFUND'', amount = Num (Fin (- 5))\<rparr>,
      \<lparr>date = Some jan28, description = Str ''FREE'', amount = Num (Fin 0)\<rparr>,
      \<lparr>date = Some jan28, description = Str ''TEXT'', amount = Str ''n/a''\<rparr>] ''a.csv''
   = [\<lparr>date = Some jan28, description = Str ''REFUND'', amount = Num (Fin 5),
        source_file = ''a.csv''\<rparr>] \<and>
   (\<exists>x. amount \<lparr>date = Some jan28, description = Str ''REFUND'', amount = Num (Fin 5),
                  source_file = ''a.csv''\<rparr> = Num x \<and> fnum_gt0 x) \<and>
   parse_frame plain_library
     [(''Date'', [Str ''28/01/2026'']), (''Description'', [Str ''TESCO'']),
      (''Amount'', [Num (Fin 3)])] ''b.csv''
   = Inr [\<lparr>date = Some jan28, description = Str ''TESCO'', amount = Num (Fin 3),
            source_file = ''b.csv''\<rparr>] \<and>
   (\<exists>x. amount \<lparr>date = Some jan28, description = Str ''TESCO'', amount = Num (Fin 3),
                  source_file = ''b.csv''\<rparr> = Num x \<and> fnum_gt0 x)"
proof -
  let ?df = "[\<lparr>date = Some jan28, description = Str ''REFUND'', amount = Num (Fin (- 5))\<rparr>,
      \<lparr>date = Some jan28, description = Str ''FREE'', amount = Num (Fin 0)\<rparr>,
      \<lparr>date = Some jan28, description = Str ''TEXT'', amount = Str ''n/a''\<rparr>]"
  let ?raw = "[(''Date'', [Str ''28/01/2026'']), (''Description'', [Str ''TESCO'']),
      (''Amount'', [Num (Fin 3)])]"
  have n: "normalise ?df ''a.csv''
      = [\<lparr>date = Some jan28, description = Str ''REFUND'', amount = Num (Fin 5),
           source_file = ''a.csv''\<rparr>]"
    by code_simp
  have p: "parse_frame plain_library ?raw ''b.csv''
      = Inr [\<lparr>date = Some jan28, description = Str ''TESCO'', amount = Num (Fin 3),
               source_file = ''b.csv''\<rparr>]"
    by code_simp
  from n p amounts_positive [of ?df "''a.csv''" plain_library ?raw "''b.csv''"]
  show ?thesis by simp
qed

text \<open>
  C4, as stated, fails: \<^verbatim>\<open>_normalise\<close> drops on \<^verbatim>\<open>date\<close> and \<^verbatim>\<open>amount\<close> only. A
  row with an empty description, a date and the amount 5 is returned with the empty
  description; such a row is what \<^verbatim>\<open>_parse_amex_detailed\<close> builds for a merchant of
  blanks (\<^verbatim>\<open>.str.strip()\<close> empties it), so a parsed statement can carry it.
\<close>

theorem empty_description_kept:
  "normalise [\<lparr>date = Some jan28, description = Str [], amount = Num (Fin 5)\<rparr>] ''a.csv''
   = [\<lparr>date = Some jan28, description = Str [], amount = Num (Fin 5),
        source_file = ''a.csv''\<rparr>] \<and>
   parse_frame plain_library
     [(''Transaction Date'', [Str ''28/01/2026'']), (''Billing Amount'', [Num (Fin 5)]),
      (''Merchant'', [Str ''  '']), (''Debit or Credit'', [Str ''DBIT''])] ''amex.csv''
   = Inr [\<lparr>date = Some jan28, description = Str [], amount = Num (Fin 5),
            source_file = ''amex.csv''\<rparr>]"
  by code_simp

text \<open>
  C4, amended. Which rows \<^verbatim>\<open>_normalise\<close> keeps is decided by \<^verbatim>\<open>date\<close> and
  \<^verbatim>\<open>amount\<close> alone (date present, amount present and, made numeric and absolute,
  greater than 0); the description is not inspected, and every kept row carries the
  description it came with, empty or missing included.
\<close>

theorem normalise_descriptions:
  "map description (normalise df source) =
   map description
     (filter (\<lambda>r. date r \<noteq> None \<and> amount r \<noteq> NaN
                 \<and> cell_gt0 (cell_abs (to_numeric (amount r)))) df)"
  by (induction df) (auto simp add: normalise_def Let_def add_source_def)

section \<open>Properties of date parsing\<close>

lemma collect_Inr_nth:
  "collect xs = Inr ds \<Longrightarrow> length ds = length xs \<and> (\<forall>i < length xs. xs ! i = Inr (ds ! i))"
proof (induction xs arbitrary: ds)
  case Nil
  then show ?case by simp
next
  case (Cons x xs)
  then show ?case
    by (auto split: sum.splits simp add: nth_Cons')
qed

lemma collect_Inl_mem: "collect xs = Inl e \<Longrightarrow> Inl e \<in> set xs"
  by (induction xs) (auto split: sum.splits)

lemma collect_mem_Inl: "Inl e \<in> set xs \<Longrightarrow> \<exists>e'. collect xs = Inl e'"
  by (induction xs) (auto split: sum.splits)

lemma strptime_cell_error: "strptime_cell lib fmt c = Inl e \<Longrightarrow> e = ValueError"
  by (auto simp add: strptime_cell_def strptime_elem_def split: cell.splits if_splits option.splits)

lemma to_datetime_format_error: "to_datetime_format lib fmt xs = Inl e \<Longrightarrow> e = ValueError"
  unfolding to_datetime_format_def
  by (auto dest!: collect_Inl_mem strptime_cell_error [OF sym])

lemma to_datetime_format_fails:
  assumes "c \<in> set xs" and "strptime_cell lib fmt c = Inl e"
  shows "to_datetime_format lib fmt xs = Inl ValueError"
proof -
  from assms have "Inl e \<in> set (map (strptime_cell lib fmt) xs)" by force
  then obtain e' where "to_datetime_format lib fmt xs = Inl e'"
    unfolding to_datetime_format_def using collect_mem_Inl by blast
  then show ?thesis using to_datetime_format_error by blast
qed

lemma to_datetime_format_nth:
  assumes "to_datetime_format lib fmt xs = Inr ds" and "i < length xs"
  shows "strptime_cell lib fmt (xs ! i) = Inr (ds ! i)"
  using collect_Inr_nth [OF assms(1) [unfolded to_datetime_format_def]] assms(2) by simp

lemma amb_dmY: "strptime_cell lib fmt_dmY_slash (Str ambiguous) = Inr (Some \<lparr>year = 2026, month = 2, day = 1\<rparr>)"
proof -
  have "strptime_elem fmt_dmY_slash ambiguous = Inr (Some \<lparr>year = 2026, month = 2, day = 1\<rparr>)"
    by code_simp
  then show ?thesis by (simp add: strptime_cell_def)
qed

lemma amb_mdY: "strptime_cell lib fmt_mdY_slash (Str ambiguous) = Inr (Some \<lparr>year = 2026, month = 1, day = 2\<rparr>)"
proof -
  have "strptime_elem fmt_mdY_slash ambiguous = Inr (Some \<lparr>year = 2026, month = 1, day = 2\<rparr>)"
    by code_simp
  then show ?thesis by (simp add: strptime_cell_def)
qed

lemma amb_others:
  "strptime_cell lib fmt_dmY_dash (Str ambiguous) = Inl ValueError"
  "strptime_cell lib fmt_Ymd (Str ambiguous) = Inl ValueError"
  "strptime_cell lib fmt_dbY (Str ambiguous) = Inl ValueError"
  "strptime_cell lib fmt_dmy_slash (Str ambiguous) = Inl ValueError"
proof -
  have "strptime_elem fmt_dmY_dash ambiguous = Inl ValueError"
    "strptime_elem fmt_Ymd ambiguous = Inl ValueError"
    "strptime_elem fmt_dbY ambiguous = Inl ValueError"
    "strptime_elem fmt_dmy_slash ambiguous = Inl ValueError"
    by code_simp+
  then show "strptime_cell lib fmt_dmY_dash (Str ambiguous) = Inl ValueError"
  "strptime_cell lib fmt_Ymd (Str ambiguous) = Inl ValueError"
  "strptime_cell lib fmt_dbY (Str ambiguous) = Inl ValueError"
  "strptime_cell lib fmt_dmy_slash (Str ambiguous) = Inl ValueError"
    by (simp_all add: strptime_cell_def)
qed

lemma to_date_with_ambiguous:
  assumes "Str ambiguous \<in> set xs"
  shows "to_date lib xs =
     (case to_datetime_format lib fmt_dmY_slash xs of
        Inr ds \<Rightarrow> Inr ds
      | Inl e \<Rightarrow>
         (case to_datetime_format lib fmt_mdY_slash xs of
            Inr ds \<Rightarrow> Inr ds
          | Inl e' \<Rightarrow> to_datetime_infer lib True xs))"
proof -
  note f = to_datetime_format_fails [OF assms]
  have 2: "to_datetime_format lib fmt_dmY_dash xs = Inl ValueError" by (rule f) (rule amb_others)
  have 3: "to_datetime_format lib fmt_Ymd xs = Inl ValueError" by (rule f) (rule amb_others)
  have 4: "to_datetime_format lib fmt_dbY xs = Inl ValueError" by (rule f) (rule amb_others)
  have 5: "to_datetime_format lib fmt_dmy_slash xs = Inl ValueError" by (rule f) (rule amb_others)
  show ?thesis
    using to_datetime_format_error [of lib fmt_dmY_slash xs]
      to_datetime_format_error [of lib fmt_mdY_slash xs]
    by (auto simp add: to_date_def FORMATS_def 2 3 4 5 split: sum.splits)
qed

text \<open>
  C7, as stated, fails: a batch whose elements all match \<^verbatim>\<open>%m/%d/%Y\<close> but not all
  \<^verbatim>\<open>%d/%m/%Y\<close> is read by the sixth format of the list, month first, and
  \<^verbatim>\<open>01/02/2026\<close> in it is 2 January 2026.
\<close>

theorem us_batch_month_first:
  "to_date plain_library [Str ''01/02/2026'', Str ''12/25/2026'']
   = Inr [Some \<lparr>year = 2026, month = 1, day = 2\<rparr>, Some \<lparr>year = 2026, month = 12, day = 25\<rparr>]"
  by code_simp

text \<open>
  C7, amended. For a batch that holds \<^verbatim>\<open>01/02/2026\<close> at position \<open>i\<close>:
  when \<^verbatim>\<open>%d/%m/%Y\<close> parses the whole batch, \<^verbatim>\<open>_to_date\<close> returns that one
  format's reading of every element and position \<open>i\<close> is 1 February 2026; when it
  does not and \<^verbatim>\<open>%m/%d/%Y\<close> parses the whole batch, \<^verbatim>\<open>_to_date\<close> returns that
  format's reading and position \<open>i\<close> is 2 January 2026; when neither does, the
  result is that of the inferring call with \<^verbatim>\<open>dayfirst=True\<close>. Formats are never
  mixed within a batch.
\<close>

theorem to_date_day_first:
  assumes "i < length xs" and "xs ! i = Str ambiguous"
  shows
    "(\<forall>ds. to_datetime_format lib fmt_dmY_slash xs = Inr ds \<longrightarrow>
        to_date lib xs = Inr ds \<and> ds ! i = Some \<lparr>year = 2026, month = 2, day = 1\<rparr>) \<and>
     (\<forall>e ds. to_datetime_format lib fmt_dmY_slash xs = Inl e \<and>
              to_datetime_format lib fmt_mdY_slash xs = Inr ds \<longrightarrow>
        to_date lib xs = Inr ds \<and> ds ! i = Some \<lparr>year = 2026, month = 1, day = 2\<rparr>) \<and>
     (\<forall>e e'. to_datetime_format lib fmt_dmY_slash xs = Inl e \<and>
              to_datetime_format lib fmt_mdY_slash xs = Inl e' \<longrightarrow>
        to_date lib xs = to_datetime_infer lib True xs)"
proof -
  from assms have mem: "Str ambiguous \<in> set xs" by (metis nth_mem)
  note main = to_date_with_ambiguous [OF mem, of lib]
  show ?thesis
  proof (intro conjI allI impI)
    fix ds assume a: "to_datetime_format lib fmt_dmY_slash xs = Inr ds"
    then show "to_date lib xs = Inr ds" by (simp add: main)
    from to_datetime_format_nth [OF a assms(1)] assms(2)
    show "ds ! i = Some \<lparr>year = 2026, month = 2, day = 1\<rparr>" by (simp add: amb_dmY)
  next
    fix e ds
    assume a: "to_datetime_format lib fmt_dmY_slash xs = Inl e \<and>
               to_datetime_format lib fmt_mdY_slash xs = Inr ds"
    then show "to_date lib xs = Inr ds" by (simp add: main)
    from a have b: "to_datetime_format lib fmt_mdY_slash xs = Inr ds" by simp
    from to_datetime_format_nth [OF b assms(1)] assms(2)
    show "ds ! i = Some \<lparr>year = 2026, month = 1, day = 2\<rparr>" by (simp add: amb_mdY)
  next
    fix e e'
    assume "to_datetime_format lib fmt_dmY_slash xs = Inl e \<and>
            to_datetime_format lib fmt_mdY_slash xs = Inl e'"
    then show "to_date lib xs = to_datetime_infer lib True xs" by (simp add: main)
  qed
qed

theorem to_date_day_first_witness:
  "to_date plain_library [Str ambiguous, Str ''13/02/2026'']
     = Inr [Some \<lparr>year = 2026, month = 2, day = 1\<rparr>, Some \<lparr>year = 2026, month = 2, day = 13\<rparr>] \<and>
   to_date plain_library [Str ambiguous, Str ''12/25/2026'']
     = Inr [Some \<lparr>year = 2026, month = 1, day = 2\<rparr>, Some \<lparr>year = 2026, month = 12, day = 25\<rparr>] \<and>
   to_date plain_library [Str ambiguous, Str ''2026-01-05'']
     = to_datetime_infer plain_library True [Str ambiguous, Str ''2026-01-05'']"
proof -
  let ?A = "[Str ambiguous, Str ''13/02/2026'']"
  let ?B = "[Str ambiguous, Str ''12/25/2026'']"
  let ?C = "[Str ambiguous, Str ''2026-01-05'']"
  have a: "to_datetime_format plain_library fmt_dmY_slash ?A
      = Inr [Some \<lparr>year = 2026, month = 2, day = 1\<rparr>, Some \<lparr>year = 2026, month = 2, day = 13\<rparr>]"
    by code_simp
  have b1: "to_datetime_format plain_library fmt_dmY_slash ?B = Inl ValueError"
    by code_simp
  have b2: "to_datetime_format plain_library fmt_mdY_slash ?B
      = Inr [Some \<lparr>year = 2026, month = 1, day = 2\<rparr>, Some \<lparr>year = 2026, month = 12, day = 25\<rparr>]"
    by code_simp
  have c1: "to_datetime_format plain_library fmt_dmY_slash ?C = Inl ValueError"
    by code_simp
  have c2: "to_datetime_format plain_library fmt_mdY_slash ?C = Inl ValueError"
    by code_simp
  have i: "0 < length ?A" "?A ! 0 = Str ambiguous" "0 < length ?B" "?B ! 0 = Str ambiguous"
    "0 < length ?C" "?C ! 0 = Str ambiguous"
    by simp_all
  from to_date_day_first [OF i(1) i(2), of plain_library] a
  have A: "to_date plain_library ?A
      = Inr [Some \<lparr>year = 2026, month = 2, day = 1\<rparr>, Some \<lparr>year = 2026, month = 2, day = 13\<rparr>]"
    by simp
  from to_date_day_first [OF i(3) i(4), of plain_library] b1 b2
  have B: "to_date plain_library ?B
      = Inr [Some \<lparr>year = 2026, month = 1, day = 2\<rparr>, Some \<lparr>year = 2026, month = 12, day = 25\<rparr>]"
    by simp
  from to_date_day_first [OF i(5) i(6), of plain_library] c1 c2
  have C: "to_date plain_library ?C = to_datetime_infer plain_library True ?C"
    by simp
  from A B C show ?thesis by simp
qed

end
